theory Spec2Isabelle
  imports Main
begin

section \<open>A shallow embedding of \<^verbatim>\<open>src/blockchain.js\<close>\<close>

text \<open>
  The three classes of \<^verbatim>\<open>blockchain.js\<close> (Transaction, Block, Blockchain) are
  embedded as records with one HOL function per method.

  \<^item> JavaScript numbers (amounts, timestamps, the nonce) are modelled as \<open>int\<close>; the
    model is exact on the integers a JavaScript number represents exactly and prints
    in plain decimal notation.
  \<^item> An address is \<open>string option\<close>: \<open>None\<close> is JavaScript's \<^verbatim>\<open>null\<close>, which the
    code uses as the sender of a mining reward. The \<^verbatim>\<open>signature\<close> property does not
    exist until \<^verbatim>\<open>signTransaction\<close> has run; \<open>None\<close> is that missing property.
  \<^item> \<^verbatim>\<open>Date.now()\<close> is an input of the environment: every function that reads the
    clock takes the reading as an argument.
  \<^item> SHA-256 (\<^verbatim>\<open>crypto.createHash('sha256')\<close>) and the ECDSA implementation of the
    \<^verbatim>\<open>elliptic\<close> package are not part of the repository. The digest is a parameter
    \<open>sha256 :: string \<Rightarrow> string\<close>, signature verification a parameter
    \<open>verify :: string \<Rightarrow> string \<Rightarrow> string \<Rightarrow> bool\<close> (public key, digest,
    signature), and a signing key is a record of its two methods.
  \<^item> A \<^verbatim>\<open>throw\<close> is the value \<open>Inl e\<close>. A method that mutates its object returns
    the outcome together with the object as it is left behind.
  \<^item> \<^verbatim>\<open>console.debug\<close> output is not modelled.
\<close>

subsection \<open>Errors\<close>

datatype error =
    OtherWallets          \<comment> \<open>\<^verbatim>\<open>'You cannot sign transactions for other wallets!'\<close>\<close>
  | NoSignature           \<comment> \<open>\<^verbatim>\<open>'No signature in this transaction'\<close>\<close>
  | MissingAddress        \<comment> \<open>\<^verbatim>\<open>'Transaction must include from and to address'\<close>\<close>
  | InvalidTransaction    \<comment> \<open>\<^verbatim>\<open>'Cannot add invalid transaction to chain'\<close>\<close>
  | AmountNotPositive     \<comment> \<open>\<^verbatim>\<open>'Transaction amount should be higher than 0'\<close>\<close>
  | NotEnoughBalance      \<comment> \<open>\<^verbatim>\<open>'Not enough balance'\<close>\<close>
  | TypeError             \<comment> \<open>raised by the JavaScript runtime itself\<close>

subsection \<open>Numbers and strings as JavaScript prints them\<close>

definition digit_char :: "nat \<Rightarrow> char" where
  "digit_char d = ''0123456789abcdef'' ! d"

fun show_nat :: "nat \<Rightarrow> string" where
  "show_nat n =
     (if n < 10 then [digit_char n] else show_nat (n div 10) @ [digit_char (n mod 10)])"

declare show_nat.simps [simp del]

text \<open>Number to string conversion, as in \<^verbatim>\<open>'' + n\<close> and in \<^verbatim>\<open>JSON.stringify(n)\<close>.\<close>

definition show_int :: "int \<Rightarrow> string" where
  "show_int i = (if i < 0 then CHR ''-'' # show_nat (nat (- i)) else show_nat (nat i))"



text \<open>String concatenation with an address: \<^verbatim>\<open>null\<close> prints as \<^verbatim>\<open>null\<close>.\<close>

fun address_text :: "string option \<Rightarrow> string" where
  "address_text None = ''null''"
| "address_text (Some a) = a"

text \<open>
  \<^verbatim>\<open>!x\<close> for an address: true for \<^verbatim>\<open>null\<close> and for the empty string.
\<close>

fun falsy :: "string option \<Rightarrow> bool" where
  "falsy None = True"
| "falsy (Some a) = (a = [])"

subsection \<open>\<^verbatim>\<open>JSON.stringify\<close>\<close>

definition dquote :: char where
  "dquote = CHR 0x22"

definition backslash :: char where
  "backslash = CHR 0x5C"

text \<open>The escapes of a JSON string literal.\<close>

definition json_escape :: "char \<Rightarrow> string" where
  "json_escape c =
     (if c = dquote then [backslash, dquote]
      else if c = backslash then [backslash, backslash]
      else if c = CHR 0x08 then [backslash, CHR ''b'']
      else if c = CHR 0x0C then [backslash, CHR ''f'']
      else if c = CHR 0x0A then [backslash, CHR ''n'']
      else if c = CHR 0x0D then [backslash, CHR ''r'']
      else if c = CHR 0x09 then [backslash, CHR ''t'']
      else if (of_char c :: nat) < 32
        then [backslash, CHR ''u'', CHR ''0'', CHR ''0'',
              digit_char (of_char c div 16), digit_char (of_char c mod 16)]
      else [c])"

definition json_string :: "string \<Rightarrow> string" where
  "json_string s = dquote # concat (map json_escape s) @ [dquote]"

definition json_key :: "string \<Rightarrow> string" where
  "json_key k = dquote # k @ [dquote, CHR '':'']"

fun json_address :: "string option \<Rightarrow> string" where
  "json_address None = ''null''"
| "json_address (Some a) = json_string a"

fun json_join :: "string list \<Rightarrow> string" where
  "json_join [] = []"
| "json_join [x] = x"
| "json_join (x # y # ys) = x @ CHR '','' # json_join (y # ys)"

subsection \<open>Transaction\<close>

record transaction =
  fromAddress :: "string option"
  toAddress :: "string option"
  amount :: int
  timestamp :: int
  signature :: "string option"

text \<open>The constructor; \<open>now\<close> is the value of \<^verbatim>\<open>Date.now()\<close>.\<close>

definition Transaction :: "string option \<Rightarrow> string option \<Rightarrow> int \<Rightarrow> int \<Rightarrow> transaction" where
  "Transaction from to amt now =
     \<lparr>fromAddress = from, toAddress = to, amount = amt, timestamp = now, signature = None\<rparr>"

text \<open>
  \<^verbatim>\<open>Transaction.calculateHash\<close>. The argument of \<^verbatim>\<open>update\<close> is
  \<^verbatim>\<open>fromAddress + toAddress + amount + timestamp\<close>, evaluated from the left: as soon as
  one of the two addresses is a string, every \<^verbatim>\<open>+\<close> is a concatenation. With both
  addresses \<^verbatim>\<open>null\<close> the sum is a number, which \<^verbatim>\<open>update\<close> rejects with a TypeError.
\<close>

definition tx_calculateHash :: "(string \<Rightarrow> string) \<Rightarrow> transaction \<Rightarrow> error + string" where
  "tx_calculateHash sha256 tx =
     (if fromAddress tx = None \<and> toAddress tx = None then Inl TypeError
      else Inr (sha256 (address_text (fromAddress tx) @ address_text (toAddress tx)
                          @ show_int (amount tx) @ show_int (transaction.timestamp tx))))"

text \<open>
  A signing key (an \<^verbatim>\<open>EC.KeyPair\<close> holding a private key): \<open>getPublic\<close> is
  \<^verbatim>\<open>getPublic('hex')\<close>, and \<open>sign k h\<close> is \<^verbatim>\<open>sign(h, 'base64').toDER('hex')\<close>.
\<close>

record keypair =
  getPublic :: string
  sign :: "string \<Rightarrow> string"

definition signTransaction ::
  "(string \<Rightarrow> string) \<Rightarrow> keypair \<Rightarrow> transaction \<Rightarrow> (error + unit) \<times> transaction" where
  "signTransaction sha256 signingKey tx =
     (if Some (getPublic signingKey) \<noteq> fromAddress tx then (Inl OtherWallets, tx)
      else (case tx_calculateHash sha256 tx of
              Inl e \<Rightarrow> (Inl e, tx)
            | Inr hashTx \<Rightarrow> (Inr (), tx\<lparr>signature := Some (sign signingKey hashTx)\<rparr>)))"

definition isValid ::
  "(string \<Rightarrow> string) \<Rightarrow> (string \<Rightarrow> string \<Rightarrow> string \<Rightarrow> bool) \<Rightarrow> transaction \<Rightarrow> error + bool" where
  "isValid sha256 verify tx =
     (case fromAddress tx of
        None \<Rightarrow> Inr True
      | Some from \<Rightarrow>
          (case signature tx of
             None \<Rightarrow> Inl NoSignature
           | Some sig \<Rightarrow>
               if sig = [] then Inl NoSignature
               else (case tx_calculateHash sha256 tx of
                       Inl e \<Rightarrow> Inl e
                     | Inr h \<Rightarrow> Inr (verify from h sig))))"

text \<open>The properties of a transaction in insertion order, as \<^verbatim>\<open>JSON.stringify\<close> prints them.\<close>

definition json_transaction :: "transaction \<Rightarrow> string" where
  "json_transaction tx =
     ''{'' @ json_key ''fromAddress'' @ json_address (fromAddress tx)
     @ '','' @ json_key ''toAddress'' @ json_address (toAddress tx)
     @ '','' @ json_key ''amount'' @ show_int (amount tx)
     @ '','' @ json_key ''timestamp'' @ show_int (transaction.timestamp tx)
     @ (case signature tx of None \<Rightarrow> [] | Some sig \<Rightarrow> '','' @ json_key ''signature'' @ json_string sig)
     @ ''}''"

subsection \<open>Block\<close>

text \<open>
  The genesis block is built with a string where every other block has a number (its
  timestamp) or an array of transactions (its body), so both fields are sums.
\<close>

datatype stamp = StampText string | StampNumber int

datatype body = Text string | Txs "transaction list"

record block =
  previousHash :: string
  timestamp :: stamp
  transactions :: body
  nonce :: int
  hash :: string

fun stamp_text :: "stamp \<Rightarrow> string" where
  "stamp_text (StampText s) = s"
| "stamp_text (StampNumber n) = show_int n"

fun json_stamp :: "stamp \<Rightarrow> string" where
  "json_stamp (StampText s) = json_string s"
| "json_stamp (StampNumber n) = show_int n"

fun json_body :: "body \<Rightarrow> string" where
  "json_body (Text s) = json_string s"
| "json_body (Txs ts) = ''['' @ json_join (map json_transaction ts) @ '']''"

text \<open>The string that \<^verbatim>\<open>Block.calculateHash\<close> feeds to SHA-256.\<close>

definition hash_input :: "block \<Rightarrow> string" where
  "hash_input b =
     previousHash b @ stamp_text (block.timestamp b) @ json_body (transactions b)
     @ show_int (nonce b)"

definition calculateHash :: "(string \<Rightarrow> string) \<Rightarrow> block \<Rightarrow> string" where
  "calculateHash sha256 b = sha256 (hash_input b)"

text \<open>The constructor: the nonce starts at 0 and the hash is computed at once.\<close>

definition Block :: "(string \<Rightarrow> string) \<Rightarrow> stamp \<Rightarrow> body \<Rightarrow> string \<Rightarrow> block" where
  "Block sha256 ts txs prev =
     (let b = \<lparr>previousHash = prev, timestamp = ts, transactions = txs, nonce = 0, hash = []\<rparr>
      in b\<lparr>hash := calculateHash sha256 b\<rparr>)"

text \<open>
  \<^verbatim>\<open>mineBlock\<close>: the loop may run forever, so the result is an option and \<open>None\<close>
  is the call that never returns. \<^verbatim>\<open>hash.substring(0, difficulty)\<close> is \<open>take\<close>, and
  \<^verbatim>\<open>Array(difficulty + 1).join('0')\<close> is \<open>difficulty\<close> zeros. The difficulty is a
  natural number; a difficulty so large that the engine refuses to build that array or
  string (a RangeError) is outside the model.
\<close>

partial_function (option) mineBlock :: "(string \<Rightarrow> string) \<Rightarrow> nat \<Rightarrow> block \<Rightarrow> block option" where
  "mineBlock sha256 difficulty b =
     (if take difficulty (hash b) \<noteq> replicate difficulty CHR ''0''
      then mineBlock sha256 difficulty
             (b\<lparr>nonce := nonce b + 1, hash := calculateHash sha256 (b\<lparr>nonce := nonce b + 1\<rparr>)\<rparr>)
      else Some b)"

declare mineBlock.simps [code]

text \<open>
  The loop condition of \<^verbatim>\<open>mineBlock\<close> on a hash, and the block as the loop body
  leaves it when the nonce has reached \<open>n\<close>.
\<close>

definition meetsDifficulty :: "nat \<Rightarrow> string \<Rightarrow> bool" where
  "meetsDifficulty difficulty h = (take difficulty h = replicate difficulty CHR ''0'')"

definition remined :: "(string \<Rightarrow> string) \<Rightarrow> block \<Rightarrow> int \<Rightarrow> block" where
  "remined sha256 b n = b\<lparr>nonce := n, hash := calculateHash sha256 (b\<lparr>nonce := n\<rparr>)\<rparr>"

text \<open>
  \<^verbatim>\<open>hasValidTransactions\<close>: the loop stops at the first transaction that is not valid,
  and an error raised by \<^verbatim>\<open>isValid\<close> leaves the loop as well. Iterating over a string
  body yields its characters, which have no \<^verbatim>\<open>isValid\<close> method: calling it is a
  TypeError.
\<close>

fun validTransactions ::
  "(string \<Rightarrow> string) \<Rightarrow> (string \<Rightarrow> string \<Rightarrow> string \<Rightarrow> bool) \<Rightarrow> transaction list \<Rightarrow> error + bool" where
  "validTransactions sha256 verify [] = Inr True"
| "validTransactions sha256 verify (tx # txs) =
     (case isValid sha256 verify tx of
        Inl e \<Rightarrow> Inl e
      | Inr ok \<Rightarrow> if \<not> ok then Inr False else validTransactions sha256 verify txs)"

fun hasValidTransactions ::
  "(string \<Rightarrow> string) \<Rightarrow> (string \<Rightarrow> string \<Rightarrow> string \<Rightarrow> bool) \<Rightarrow> block \<Rightarrow> error + bool" where
  "hasValidTransactions sha256 verify b =
     (case transactions b of
        Text s \<Rightarrow> if s = [] then Inr True else Inl TypeError
      | Txs txs \<Rightarrow> validTransactions sha256 verify txs)"

definition json_block :: "block \<Rightarrow> string" where
  "json_block b =
     ''{'' @ json_key ''previousHash'' @ json_string (previousHash b)
     @ '','' @ json_key ''timestamp'' @ json_stamp (block.timestamp b)
     @ '','' @ json_key ''transactions'' @ json_body (transactions b)
     @ '','' @ json_key ''nonce'' @ show_int (nonce b)
     @ '','' @ json_key ''hash'' @ json_string (hash b)
     @ ''}''"

subsection \<open>Blockchain\<close>

record blockchain =
  chain :: "block list"
  difficulty :: nat
  pendingTransactions :: "transaction list"
  miningReward :: int

definition createGenesisBlock :: "(string \<Rightarrow> string) \<Rightarrow> block" where
  "createGenesisBlock sha256 =
     Block sha256 (StampText ''01/01/2022'') (Text ''Genesis block'') ''0''"

definition Blockchain :: "(string \<Rightarrow> string) \<Rightarrow> blockchain" where
  "Blockchain sha256 =
     \<lparr>chain = [createGenesisBlock sha256], difficulty = 2, pendingTransactions = [],
      miningReward = 100\<rparr>"

text \<open>\<^verbatim>\<open>chain[chain.length - 1]\<close>; on an empty array the result is \<^verbatim>\<open>undefined\<close>.\<close>

definition getLatestBlock :: "blockchain \<Rightarrow> block option" where
  "getLatestBlock bc = (if chain bc = [] then None else Some (last (chain bc)))"

text \<open>
  \<^verbatim>\<open>getBalanceOfAddress\<close>: the two nested loops, with the running balance as an
  accumulator. The characters of a string body have neither a \<^verbatim>\<open>fromAddress\<close> nor a
  \<^verbatim>\<open>toAddress\<close>; both reads give \<^verbatim>\<open>undefined\<close>, which is never \<^verbatim>\<open>===\<close> to a string
  or to \<^verbatim>\<open>null\<close>, so such a body leaves the balance as it is.
\<close>

fun balance_transactions :: "string option \<Rightarrow> transaction list \<Rightarrow> int \<Rightarrow> int" where
  "balance_transactions address [] balance = balance"
| "balance_transactions address (tx # rest) balance =
     (let balance1 = (if fromAddress tx = address then balance - amount tx else balance);
          balance2 = (if toAddress tx = address then balance1 + amount tx else balance1)
      in balance_transactions address rest balance2)"

fun balance_blocks :: "string option \<Rightarrow> block list \<Rightarrow> int \<Rightarrow> int" where
  "balance_blocks address [] balance = balance"
| "balance_blocks address (b # rest) balance =
     balance_blocks address rest
       (case transactions b of
          Text s \<Rightarrow> balance
        | Txs txs \<Rightarrow> balance_transactions address txs balance)"

definition getBalanceOfAddress :: "blockchain \<Rightarrow> string option \<Rightarrow> int" where
  "getBalanceOfAddress bc address = balance_blocks address (chain bc) 0"

fun wallet_blocks :: "string option \<Rightarrow> block list \<Rightarrow> transaction list" where
  "wallet_blocks address [] = []"
| "wallet_blocks address (b # rest) =
     (case transactions b of
        Text s \<Rightarrow> []
      | Txs txs \<Rightarrow> filter (\<lambda>tx. fromAddress tx = address \<or> toAddress tx = address) txs)
     @ wallet_blocks address rest"

definition getAllTransactionsForWallet :: "blockchain \<Rightarrow> string option \<Rightarrow> transaction list" where
  "getAllTransactionsForWallet bc address = wallet_blocks address (chain bc)"

text \<open>
  \<^verbatim>\<open>addTransaction\<close>: four guards, each throwing before the pool is touched, then the
  push. An error raised by \<^verbatim>\<open>isValid\<close> passes through the second guard.
\<close>

definition addTransaction ::
  "(string \<Rightarrow> string) \<Rightarrow> (string \<Rightarrow> string \<Rightarrow> string \<Rightarrow> bool) \<Rightarrow> blockchain \<Rightarrow> transaction
     \<Rightarrow> (error + unit) \<times> blockchain" where
  "addTransaction sha256 verify bc tx =
     (if falsy (fromAddress tx) \<or> falsy (toAddress tx) then (Inl MissingAddress, bc)
      else (case isValid sha256 verify tx of
              Inl e \<Rightarrow> (Inl e, bc)
            | Inr ok \<Rightarrow>
                if \<not> ok then (Inl InvalidTransaction, bc)
                else if amount tx \<le> 0 then (Inl AmountNotPositive, bc)
                else if getBalanceOfAddress bc (fromAddress tx) < amount tx
                  then (Inl NotEnoughBalance, bc)
                else (Inr (), bc\<lparr>pendingTransactions := pendingTransactions bc @ [tx]\<rparr>)))"

text \<open>
  \<^verbatim>\<open>minePendingTransactions\<close>; \<open>now1\<close> and \<open>now2\<close> are the two readings of the
  clock (for the reward transaction and for the block). The reward is pushed to the
  pool first, so the pool holds it already if the call then fails or never returns.
  The new block takes over the array that was the pool, and the pool becomes a fresh
  empty array: block and pool share nothing afterwards. Reading \<^verbatim>\<open>.hash\<close> of the
  latest block of an empty chain is a TypeError.
\<close>

definition minePendingTransactions ::
  "(string \<Rightarrow> string) \<Rightarrow> blockchain \<Rightarrow> string option \<Rightarrow> int \<Rightarrow> int
     \<Rightarrow> ((error + unit) \<times> blockchain) option" where
  "minePendingTransactions sha256 bc miningRewardAddress now1 now2 =
     (let rewardTx = Transaction None miningRewardAddress (miningReward bc) now1;
          bc1 = bc\<lparr>pendingTransactions := pendingTransactions bc @ [rewardTx]\<rparr>
      in case getLatestBlock bc1 of
           None \<Rightarrow> Some (Inl TypeError, bc1)
         | Some latest \<Rightarrow>
             (case mineBlock sha256 (difficulty bc1)
                     (Block sha256 (StampNumber now2) (Txs (pendingTransactions bc1)) (hash latest)) of
                None \<Rightarrow> None
              | Some mined \<Rightarrow>
                  Some (Inr (), bc1\<lparr>chain := chain bc1 @ [mined], pendingTransactions := []\<rparr>)))"

text \<open>
  \<^verbatim>\<open>isChainValid\<close>: the comparison of the genesis block, then the loop from index 1,
  which carries the previous block along. \<^verbatim>\<open>JSON.stringify(chain[0])\<close> of an empty
  chain is \<^verbatim>\<open>undefined\<close>, which differs from every string.
\<close>

fun validBlocks ::
  "(string \<Rightarrow> string) \<Rightarrow> (string \<Rightarrow> string \<Rightarrow> string \<Rightarrow> bool) \<Rightarrow> block \<Rightarrow> block list \<Rightarrow> error + bool" where
  "validBlocks sha256 verify previousBlock [] = Inr True"
| "validBlocks sha256 verify previousBlock (currentBlock # rest) =
     (if hash previousBlock \<noteq> previousHash currentBlock then Inr False
      else (case hasValidTransactions sha256 verify currentBlock of
              Inl e \<Rightarrow> Inl e
            | Inr ok \<Rightarrow>
                if \<not> ok then Inr False
                else if hash currentBlock \<noteq> calculateHash sha256 currentBlock then Inr False
                else validBlocks sha256 verify currentBlock rest))"

definition isChainValid ::
  "(string \<Rightarrow> string) \<Rightarrow> (string \<Rightarrow> string \<Rightarrow> string \<Rightarrow> bool) \<Rightarrow> blockchain \<Rightarrow> error + bool" where
  "isChainValid sha256 verify bc =
     (case chain bc of
        [] \<Rightarrow> Inr False
      | first # rest \<Rightarrow>
          if json_block (createGenesisBlock sha256) \<noteq> json_block first then Inr False
          else validBlocks sha256 verify first rest)"

subsection \<open>States reachable through the public operations\<close>

text \<open>
  The states a caller reaches with the constructor, \<^verbatim>\<open>addTransaction\<close> (whether it
  succeeds or throws) and \<^verbatim>\<open>minePendingTransactions\<close> (when it returns); the queries
  change nothing. The last argument records the history the state itself does not
  keep: the miner address of every call of \<^verbatim>\<open>minePendingTransactions\<close> that appended
  a block, oldest first.
\<close>

inductive reachable ::
  "(string \<Rightarrow> string) \<Rightarrow> (string \<Rightarrow> string \<Rightarrow> string \<Rightarrow> bool) \<Rightarrow> blockchain \<Rightarrow> string option list \<Rightarrow> bool"
  for sha256 verify where
  constructed: "reachable sha256 verify (Blockchain sha256) []"
| added:
    "reachable sha256 verify bc miners \<Longrightarrow> addTransaction sha256 verify bc tx = (r, bc')
       \<Longrightarrow> reachable sha256 verify bc' miners"
| mined:
    "reachable sha256 verify bc miners
       \<Longrightarrow> minePendingTransactions sha256 bc miner now1 now2 = Some (Inr (), bc')
       \<Longrightarrow> reachable sha256 verify bc' (miners @ [miner])"
| mining_failed:
    "reachable sha256 verify bc miners
       \<Longrightarrow> minePendingTransactions sha256 bc miner now1 now2 = Some (Inl e, bc')
       \<Longrightarrow> reachable sha256 verify bc' miners"

subsection \<open>The balance as the specification words it\<close>





subsection \<open>Tampering with amounts\<close>





subsection \<open>Stand-ins for the digest and the signature scheme\<close>

text \<open>
  To run the model on concrete inputs the two parameters need values. \<open>demo_sha256\<close>
  is a checksum printed as 64 hexadecimal digits, \<open>demo_verify\<close> accepts the
  signatures that \<open>demo_key\<close> produces. They stand for the real primitives only in
  the concrete instances below; every general theorem holds for all parameters.
\<close>

definition demo_sha256 :: "string \<Rightarrow> string" where
  "demo_sha256 s =
     (let k = sum_list (map of_char s) mod 3
      in replicate 2 (digit_char k) @ replicate 62 CHR ''a'')"

definition demo_verify :: "string \<Rightarrow> string \<Rightarrow> string \<Rightarrow> bool" where
  "demo_verify publicKey h sig = (sig = publicKey @ h)"

definition demo_key :: "string \<Rightarrow> keypair" where
  "demo_key publicKey = \<lparr>getPublic = publicKey, sign = (\<lambda>h. publicKey @ h)\<rparr>"

text \<open>
  A transaction from \<open>A\<close> to \<open>B\<close>, signed with the key of \<open>A\<close>, and the states of
  a small scenario: \<open>A\<close> mines the first block; a signed transfer of 40 from \<open>A\<close> to
  \<open>B\<close> is added; \<open>A\<close> mines the second block.
\<close>

definition demo_signed :: "int \<Rightarrow> int \<Rightarrow> transaction" where
  "demo_signed amt now =
     snd (signTransaction demo_sha256 (demo_key ''A'') (Transaction (Some ''A'') (Some ''B'') amt now))"

definition demo_hash00 :: string where
  "demo_hash00 = replicate 2 CHR ''0'' @ replicate 62 CHR ''a''"

definition demo_block1 :: block where
  "demo_block1 =
     \<lparr>previousHash = demo_hash00, timestamp = StampNumber 2,
      transactions = Txs [Transaction None (Some ''A'') 100 1], nonce = 0, hash = demo_hash00\<rparr>"

definition demo_chain1 :: blockchain where
  "demo_chain1 =
     \<lparr>chain = [createGenesisBlock demo_sha256, demo_block1], difficulty = 2,
      pendingTransactions = [], miningReward = 100\<rparr>"

definition demo_block2 :: block where
  "demo_block2 =
     \<lparr>previousHash = demo_hash00, timestamp = StampNumber 6,
      transactions = Txs [demo_signed 40 3, Transaction None (Some ''A'') 100 4], nonce = 1,
      hash = demo_hash00\<rparr>"

definition demo_chain2 :: blockchain where
  "demo_chain2 =
     \<lparr>chain = [createGenesisBlock demo_sha256, demo_block1, demo_block2], difficulty = 2,
      pendingTransactions = [], miningReward = 100\<rparr>"


definition demo_unsigned :: "block list" where
  "demo_unsigned =
     [createGenesisBlock demo_sha256, demo_block1,
      demo_block2\<lparr>transactions :=
        Txs [(demo_signed 40 3)\<lparr>signature := None\<rparr>, Transaction None (Some ''A'') 100 4]\<rparr>]"

text \<open>
  Whether the last transaction of a block is a reward of the given amount to the given
  miner, and the only transaction of the block without a sender.
\<close>

definition ends_with_reward :: "block \<Rightarrow> string option \<Rightarrow> int \<Rightarrow> bool" where
  "ends_with_reward b miner reward =
     (case transactions b of
        Text s \<Rightarrow> False
      | Txs txs \<Rightarrow>
          txs \<noteq> [] \<and> fromAddress (last txs) = None \<and> toAddress (last txs) = miner
          \<and> amount (last txs) = reward \<and> list_all (\<lambda>tx. fromAddress tx \<noteq> None) (butlast txs))"

section \<open>Transactions\<close>



text \<open>
  C8. \<^verbatim>\<open>signTransaction\<close> throws "You cannot sign transactions for other wallets!"
  and leaves the transaction as it was whenever the public key of the signing key is
  not the transaction's \<^verbatim>\<open>fromAddress\<close>. When the two are equal, the call succeeds and
  stores, as \<^verbatim>\<open>signature\<close>, the key's signature of the digest that
  \<^verbatim>\<open>calculateHash()\<close> returns.
\<close>

theorem signTransaction_cases:
  "(Some (getPublic signingKey) \<noteq> fromAddress tx
      \<longrightarrow> signTransaction sha256 signingKey tx = (Inl OtherWallets, tx))
   \<and> (Some (getPublic signingKey) = fromAddress tx
      \<longrightarrow> (\<exists>h. tx_calculateHash sha256 tx = Inr h
               \<and> signTransaction sha256 signingKey tx
                   = (Inr (), tx\<lparr>signature := Some (sign signingKey h)\<rparr>)))"
  by (auto simp: signTransaction_def tx_calculateHash_def)

theorem signTransaction_cases_witness:
  "signTransaction demo_sha256 (demo_key ''C'') (Transaction (Some ''A'') (Some ''B'') 40 1)
     = (Inl OtherWallets, Transaction (Some ''A'') (Some ''B'') 40 1)
   \<and> (\<exists>h. tx_calculateHash demo_sha256 (Transaction (Some ''A'') (Some ''B'') 40 1) = Inr h
          \<and> signTransaction demo_sha256 (demo_key ''A'') (Transaction (Some ''A'') (Some ''B'') 40 1)
              = (Inr (), (Transaction (Some ''A'') (Some ''B'') 40 1)\<lparr>signature := Some (''A'' @ h)\<rparr>))"
  using signTransaction_cases [of "demo_key ''C''" "Transaction (Some ''A'') (Some ''B'') 40 1" demo_sha256]
    signTransaction_cases [of "demo_key ''A''" "Transaction (Some ''A'') (Some ''B'') 40 1" demo_sha256]
  by (simp add: Transaction_def demo_key_def)

section \<open>Proof of work\<close>

subsection \<open>The mining loop\<close>

lemma hash_input_hash_update [simp]: "hash_input (b\<lparr>hash := h\<rparr>) = hash_input b"
  by (simp add: hash_input_def)

lemma calculateHash_hash_update [simp]:
  "calculateHash sha256 (b\<lparr>hash := h\<rparr>) = calculateHash sha256 b"
  by (simp add: calculateHash_def)

lemma remined_remined [simp]: "remined sha256 (remined sha256 b n) m = remined sha256 b m"
  by (simp add: remined_def calculateHash_def hash_input_def)

lemma remined_fields [simp]:
  "nonce (remined sha256 b n) = n"
  "previousHash (remined sha256 b n) = previousHash b"
  "block.timestamp (remined sha256 b n) = block.timestamp b"
  "transactions (remined sha256 b n) = transactions b"
  by (simp_all add: remined_def)

lemma remined_hash: "hash (remined sha256 b n) = calculateHash sha256 (remined sha256 b n)"
  by (simp add: remined_def)

lemma Block_remined: "Block sha256 ts txs prev = remined sha256 (Block sha256 ts txs prev) 0"
  by (simp add: Block_def remined_def Let_def calculateHash_def hash_input_def)

lemma mineBlock_unfold:
  "mineBlock sha256 d b =
     (if meetsDifficulty d (hash b) then Some b
      else mineBlock sha256 d (remined sha256 b (nonce b + 1)))"
  by (subst mineBlock.simps) (simp add: meetsDifficulty_def remined_def)

lemma mineBlock_finds:
  "(\<forall>j<k. \<not> meetsDifficulty d (hash (remined sha256 b (n + int j))))
   \<Longrightarrow> meetsDifficulty d (hash (remined sha256 b (n + int k)))
   \<Longrightarrow> mineBlock sha256 d (remined sha256 b n) = Some (remined sha256 b (n + int k))"
proof (induction k arbitrary: n)
  case 0
  then show ?case by (subst mineBlock_unfold) simp
next
  case (Suc k)
  have first: "\<not> meetsDifficulty d (hash (remined sha256 b n))"
    using Suc.prems(1) [rule_format, of 0] by simp
  have later: "\<forall>j<k. \<not> meetsDifficulty d (hash (remined sha256 b (n + 1 + int j)))"
  proof (intro allI impI)
    fix j assume "j < k"
    then show "\<not> meetsDifficulty d (hash (remined sha256 b (n + 1 + int j)))"
      using Suc.prems(1) [rule_format, of "Suc j"] by (simp add: add.assoc)
  qed
  have last: "meetsDifficulty d (hash (remined sha256 b (n + 1 + int k)))"
    using Suc.prems(2) by (simp add: add.assoc)
  have "mineBlock sha256 d (remined sha256 b n) = mineBlock sha256 d (remined sha256 b (n + 1))"
    using first by (subst mineBlock_unfold) simp
  also have "\<dots> = Some (remined sha256 b (n + 1 + int k))"
    by (rule Suc.IH [OF later last])
  finally show ?case by (simp add: add.assoc)
qed

lemma mineBlock_returns:
  assumes "mineBlock sha256 d b = Some b'"
  shows "meetsDifficulty d (hash b') \<and> (b' = b \<or> (\<exists>n>nonce b. b' = remined sha256 b n))"
  using assms
proof (induct sha256 d b b' rule: mineBlock.raw_induct [rotated 1, consumes 1])
  case (1 mine sha256 d b b')
  note IH = "1"(1) and eq = "1"(2)
  show ?case
  proof (cases "meetsDifficulty d (hash b)")
    case True
    then show ?thesis using eq by (auto simp: meetsDifficulty_def)
  next
    case False
    then have "mine sha256 d (remined sha256 b (nonce b + 1)) = Some b'"
      using eq by (simp add: meetsDifficulty_def remined_def)
    from IH [OF this]
    have met: "meetsDifficulty d (hash b')"
      and shape: "b' = remined sha256 b (nonce b + 1) \<or> (\<exists>n>nonce b + 1. b' = remined sha256 b n)"
      by simp_all
    from shape have "\<exists>n>nonce b. b' = remined sha256 b n"
    proof
      assume "b' = remined sha256 b (nonce b + 1)"
      then show ?thesis by (intro exI [of _ "nonce b + 1"]) simp
    next
      assume "\<exists>n>nonce b + 1. b' = remined sha256 b n"
      then obtain n where "nonce b + 1 < n" "b' = remined sha256 b n" by blast
      then show ?thesis by (intro exI [of _ n]) simp
    qed
    with met show ?thesis by simp
  qed
qed


subsection \<open>Running the model\<close>

lemma show_int_values:
  "show_int 0 = ''0''" "show_int 1 = ''1''" "show_int 2 = ''2''" "show_int 3 = ''3''"
  "show_int 4 = ''4''" "show_int 5 = ''5''" "show_int 6 = ''6''" "show_int 7 = ''7''"
  "show_int 8 = ''8''" "show_int 9 = ''9''"
  "show_int 40 = ''40''" "show_int 60 = ''60''" "show_int 100 = ''100''"
  "show_int 999 = ''999''"
  by (simp_all add: show_int_def show_nat.simps digit_char_def)

lemmas demo_eval =
  Block_def Let_def calculateHash_def hash_input_def demo_sha256_def show_int_values
  digit_char_def Transaction_def json_transaction_def json_key_def
  json_string_def json_escape_def dquote_def backslash_def

lemma demo_sha256_length [simp]: "length (demo_sha256 s) = 64"
  by (simp add: demo_sha256_def Let_def)

lemma demo_mine_loop:
  "mineBlock demo_sha256 2
     (Block demo_sha256 (StampNumber 3) (Txs [Transaction None (Some ''A'') 100 1]) ''0'')
   = Some (remined demo_sha256
       (Block demo_sha256 (StampNumber 3) (Txs [Transaction None (Some ''A'') 100 1]) ''0'') 1)"
proof -
  let ?b = "Block demo_sha256 (StampNumber 3) (Txs [Transaction None (Some ''A'') 100 1]) ''0''"
  have no: "\<forall>j<1. \<not> meetsDifficulty 2 (hash (remined demo_sha256 ?b (0 + int j)))"
    by (simp add: remined_def demo_eval meetsDifficulty_def)
  have yes: "meetsDifficulty 2 (hash (remined demo_sha256 ?b (0 + int 1)))"
    by (simp add: remined_def demo_eval meetsDifficulty_def)
  from mineBlock_finds [OF no yes] show ?thesis
    by (simp add: Block_remined [symmetric])
qed

subsection \<open>What \<^verbatim>\<open>mineBlock\<close> returns\<close>

text \<open>
  C3, as amended. Whenever \<^verbatim>\<open>mineBlock(d)\<close> returns, the first \<open>d\<close> characters of the
  block's hash are all \<^verbatim>\<open>'0'\<close>. The stored hash equals \<^verbatim>\<open>calculateHash()\<close> on the
  block's current fields provided it did so when \<^verbatim>\<open>mineBlock\<close> was called (as it does
  for a block that was just constructed), or the hash did not yet have \<open>d\<close> leading
  zeros, so that the loop body ran at least once.
\<close>

theorem mineBlock_result:
  "mineBlock sha256 d b = Some b'
   \<Longrightarrow> take d (hash b') = replicate d CHR ''0''
       \<and> (hash b = calculateHash sha256 b \<or> take d (hash b) \<noteq> replicate d CHR ''0''
            \<longrightarrow> hash b' = calculateHash sha256 b')"
proof -
  assume ret: "mineBlock sha256 d b = Some b'"
  from mineBlock_returns [OF ret]
  have met: "meetsDifficulty d (hash b')"
    and shape: "b' = b \<or> (\<exists>n>nonce b. b' = remined sha256 b n)"
    by simp_all
  from shape have "hash b = calculateHash sha256 b \<or> \<not> meetsDifficulty d (hash b)
      \<longrightarrow> hash b' = calculateHash sha256 b'"
  proof
    assume "b' = b"
    with met show ?thesis by simp
  next
    assume "\<exists>n>nonce b. b' = remined sha256 b n"
    then show ?thesis using remined_hash by blast
  qed
  with met show ?thesis by (simp add: meetsDifficulty_def)
qed

theorem mineBlock_result_witness:
  "mineBlock demo_sha256 2
     (Block demo_sha256 (StampNumber 3) (Txs [Transaction None (Some ''A'') 100 1]) ''0'')
   = Some (remined demo_sha256
       (Block demo_sha256 (StampNumber 3) (Txs [Transaction None (Some ''A'') 100 1]) ''0'') 1)
   \<and> hash (Block demo_sha256 (StampNumber 3) (Txs [Transaction None (Some ''A'') 100 1]) ''0'')
       = calculateHash demo_sha256
           (Block demo_sha256 (StampNumber 3) (Txs [Transaction None (Some ''A'') 100 1]) ''0'')
   \<and> take 2 (hash (remined demo_sha256
       (Block demo_sha256 (StampNumber 3) (Txs [Transaction None (Some ''A'') 100 1]) ''0'') 1))
       = replicate 2 CHR ''0''
   \<and> hash (remined demo_sha256
       (Block demo_sha256 (StampNumber 3) (Txs [Transaction None (Some ''A'') 100 1]) ''0'') 1)
       = calculateHash demo_sha256 (remined demo_sha256
       (Block demo_sha256 (StampNumber 3) (Txs [Transaction None (Some ''A'') 100 1]) ''0'') 1)"
  using mineBlock_result [OF demo_mine_loop] demo_mine_loop
  by (simp add: demo_eval remined_def)

text \<open>
  C3 as stated, for every block, fails: the loop tests the stored hash before it
  computes one. A block built over an empty array, to which a transaction is pushed
  afterwards, still carries the hash of the empty block; \<^verbatim>\<open>mineBlock(0)\<close> returns at
  once and leaves that hash, which is not \<^verbatim>\<open>calculateHash()\<close> of the block.
\<close>

theorem mineBlock_stale_counterexample:
  "mineBlock demo_sha256 0
     ((Block demo_sha256 (StampNumber 2) (Txs []) ''0'')
        \<lparr>transactions := Txs [Transaction (Some ''A'') (Some ''B'') 40 1]\<rparr>)
   = Some ((Block demo_sha256 (StampNumber 2) (Txs []) ''0'')
        \<lparr>transactions := Txs [Transaction (Some ''A'') (Some ''B'') 40 1]\<rparr>)
   \<and> hash ((Block demo_sha256 (StampNumber 2) (Txs []) ''0'')
        \<lparr>transactions := Txs [Transaction (Some ''A'') (Some ''B'') 40 1]\<rparr>)
     \<noteq> calculateHash demo_sha256 ((Block demo_sha256 (StampNumber 2) (Txs []) ''0'')
        \<lparr>transactions := Txs [Transaction (Some ''A'') (Some ''B'') 40 1]\<rparr>)"
  by (subst mineBlock_unfold) (simp add: demo_eval meetsDifficulty_def)

section \<open>Mining the pending transactions\<close>



lemma Block_fields [simp]:
  "previousHash (Block sha256 ts txs prev) = prev"
  "block.timestamp (Block sha256 ts txs prev) = ts"
  "transactions (Block sha256 ts txs prev) = txs"
  "nonce (Block sha256 ts txs prev) = 0"
  by (simp_all add: Block_def Let_def)


lemma minePendingTransactions_mined:
  assumes "chain bc \<noteq> []"
    and "mineBlock sha256 (difficulty bc)
           (Block sha256 (StampNumber now2)
              (Txs (pendingTransactions bc @ [Transaction None miner (miningReward bc) now1]))
              (hash (last (chain bc)))) = Some mined"
  shows "minePendingTransactions sha256 bc miner now1 now2
         = Some (Inr (), bc\<lparr>chain := chain bc @ [mined], pendingTransactions := []\<rparr>)"
  using assms by (simp add: minePendingTransactions_def getLatestBlock_def Let_def)

subsection \<open>The scenario, step by step\<close>

lemmas demo_states =
  Blockchain_def createGenesisBlock_def demo_chain1_def demo_block1_def demo_chain2_def
  demo_block2_def demo_hash00_def demo_signed_def signTransaction_def tx_calculateHash_def
  demo_key_def sum_list_replicate

lemma demo_first_mine:
  "minePendingTransactions demo_sha256 (Blockchain demo_sha256) (Some ''A'') 1 2
   = Some (Inr (), demo_chain1)"
  apply (subst minePendingTransactions_mined [where mined = demo_block1])
    apply (simp add: Blockchain_def)
   apply (subst mineBlock_unfold)
   apply (simp add: demo_states demo_eval meetsDifficulty_def)
  apply (simp add: demo_states demo_eval)
  done

lemma demo_signed_valid: "isValid demo_sha256 demo_verify (demo_signed amt now) = Inr True"
  by (simp add: demo_signed_def signTransaction_def demo_key_def Transaction_def
      tx_calculateHash_def isValid_def demo_verify_def)

lemma demo_signed_fields [simp]:
  "fromAddress (demo_signed amt now) = Some ''A''"
  "toAddress (demo_signed amt now) = Some ''B''"
  "amount (demo_signed amt now) = amt"
  by (simp_all add: demo_signed_def signTransaction_def demo_key_def Transaction_def
      tx_calculateHash_def)

lemma demo_balance1: "getBalanceOfAddress demo_chain1 (Some ''A'') = 100"
  by (simp add: getBalanceOfAddress_def demo_chain1_def demo_block1_def createGenesisBlock_def
      Block_def Let_def Transaction_def)

lemma demo_add:
  "addTransaction demo_sha256 demo_verify demo_chain1 (demo_signed 40 3)
   = (Inr (), demo_chain1\<lparr>pendingTransactions := [demo_signed 40 3]\<rparr>)"
  by (simp add: addTransaction_def demo_signed_valid demo_balance1) (simp add: demo_chain1_def)

lemma demo_second_mine:
  "minePendingTransactions demo_sha256 (demo_chain1\<lparr>pendingTransactions := [demo_signed 40 3]\<rparr>)
     (Some ''A'') 4 6
   = Some (Inr (), demo_chain2)"
  apply (subst minePendingTransactions_mined [where mined = demo_block2])
    apply (simp add: demo_chain1_def)
   apply (subst mineBlock_unfold)
   apply (simp add: demo_states demo_eval meetsDifficulty_def)
   apply (subst mineBlock_unfold)
   apply (simp add: demo_states demo_eval meetsDifficulty_def remined_def)
  apply (simp add: demo_states demo_eval)
  done

lemma demo_reachable2: "reachable demo_sha256 demo_verify demo_chain2 [Some ''A'', Some ''A'']"
  using reachable.mined [OF reachable.added [OF reachable.mined [OF reachable.constructed
    demo_first_mine] demo_add] demo_second_mine]
  by simp

subsection \<open>The effect of \<^verbatim>\<open>minePendingTransactions\<close>\<close>




section \<open>Adding a transaction\<close>

text \<open>
  C4. \<^verbatim>\<open>addTransaction\<close> runs its checks in order: a missing (or empty) sender or
  recipient, then \<^verbatim>\<open>isValid()\<close> (whose own error passes through, and whose \<open>false\<close>
  is an error), then a non-positive amount, then a balance of the sender below the
  amount. The four errors are distinct; on every failure the state is unchanged, and on
  success the only change is the transaction appended to the pool.
\<close>

theorem addTransaction_checks:
  "(falsy (fromAddress tx) \<or> falsy (toAddress tx)
      \<longrightarrow> addTransaction sha256 verify bc tx = (Inl MissingAddress, bc))
   \<and> (\<forall>e. \<not> falsy (fromAddress tx) \<and> \<not> falsy (toAddress tx) \<and> isValid sha256 verify tx = Inl e
      \<longrightarrow> addTransaction sha256 verify bc tx = (Inl e, bc))
   \<and> (\<not> falsy (fromAddress tx) \<and> \<not> falsy (toAddress tx) \<and> isValid sha256 verify tx = Inr False
      \<longrightarrow> addTransaction sha256 verify bc tx = (Inl InvalidTransaction, bc))
   \<and> (\<not> falsy (fromAddress tx) \<and> \<not> falsy (toAddress tx) \<and> isValid sha256 verify tx = Inr True
        \<and> amount tx \<le> 0
      \<longrightarrow> addTransaction sha256 verify bc tx = (Inl AmountNotPositive, bc))
   \<and> (\<not> falsy (fromAddress tx) \<and> \<not> falsy (toAddress tx) \<and> isValid sha256 verify tx = Inr True
        \<and> 0 < amount tx \<and> getBalanceOfAddress bc (fromAddress tx) < amount tx
      \<longrightarrow> addTransaction sha256 verify bc tx = (Inl NotEnoughBalance, bc))
   \<and> (\<not> falsy (fromAddress tx) \<and> \<not> falsy (toAddress tx) \<and> isValid sha256 verify tx = Inr True
        \<and> 0 < amount tx \<and> amount tx \<le> getBalanceOfAddress bc (fromAddress tx)
      \<longrightarrow> addTransaction sha256 verify bc tx
            = (Inr (), bc\<lparr>pendingTransactions := pendingTransactions bc @ [tx]\<rparr>))
   \<and> (\<forall>e. fst (addTransaction sha256 verify bc tx) = Inl e
      \<longrightarrow> snd (addTransaction sha256 verify bc tx) = bc)
   \<and> (fst (addTransaction sha256 verify bc tx) = Inr ()
      \<longrightarrow> snd (addTransaction sha256 verify bc tx)
            = bc\<lparr>pendingTransactions := pendingTransactions bc @ [tx]\<rparr>)
   \<and> distinct [MissingAddress, InvalidTransaction, AmountNotPositive, NotEnoughBalance]"
  by (auto simp: addTransaction_def split: sum.splits)

theorem addTransaction_checks_witness:
  "addTransaction demo_sha256 demo_verify demo_chain1 (Transaction None (Some ''B'') 40 3)
     = (Inl MissingAddress, demo_chain1)
   \<and> addTransaction demo_sha256 demo_verify demo_chain1 (Transaction (Some ''A'') (Some ''B'') 40 3)
     = (Inl NoSignature, demo_chain1)
   \<and> addTransaction demo_sha256 demo_verify demo_chain1
       ((Transaction (Some ''A'') (Some ''B'') 40 3)\<lparr>signature := Some ''forged''\<rparr>)
     = (Inl InvalidTransaction, demo_chain1)
   \<and> addTransaction demo_sha256 demo_verify demo_chain1 (demo_signed 0 3)
     = (Inl AmountNotPositive, demo_chain1)
   \<and> addTransaction demo_sha256 demo_verify demo_chain1 (demo_signed 999 3)
     = (Inl NotEnoughBalance, demo_chain1)
   \<and> addTransaction demo_sha256 demo_verify demo_chain1 (demo_signed 40 3)
     = (Inr (), demo_chain1\<lparr>pendingTransactions := pendingTransactions demo_chain1 @ [demo_signed 40 3]\<rparr>)"
proof -
  have unsigned: "isValid demo_sha256 demo_verify (Transaction (Some ''A'') (Some ''B'') 40 3)
      = Inl NoSignature"
    by (simp add: isValid_def Transaction_def)
  have forged: "isValid demo_sha256 demo_verify
      ((Transaction (Some ''A'') (Some ''B'') 40 3)\<lparr>signature := Some ''forged''\<rparr>) = Inr False"
    by (simp add: isValid_def Transaction_def tx_calculateHash_def demo_verify_def)
  have bal: "getBalanceOfAddress demo_chain1 (fromAddress (demo_signed amt now)) = 100" for amt now
    by (simp add: demo_balance1)
  have c1: "addTransaction demo_sha256 demo_verify demo_chain1 (Transaction None (Some ''B'') 40 3)
     = (Inl MissingAddress, demo_chain1)"
    using addTransaction_checks
        [of "Transaction None (Some ''B'') 40 3" demo_sha256 demo_verify demo_chain1]
    by (simp add: Transaction_def)
  have c2: "addTransaction demo_sha256 demo_verify demo_chain1 (Transaction (Some ''A'') (Some ''B'') 40 3)
     = (Inl NoSignature, demo_chain1)"
    using addTransaction_checks
        [of "Transaction (Some ''A'') (Some ''B'') 40 3" demo_sha256 demo_verify demo_chain1]
      unsigned
    by (simp add: Transaction_def)
  have c3: "addTransaction demo_sha256 demo_verify demo_chain1
       ((Transaction (Some ''A'') (Some ''B'') 40 3)\<lparr>signature := Some ''forged''\<rparr>)
     = (Inl InvalidTransaction, demo_chain1)"
    using addTransaction_checks
        [of "(Transaction (Some ''A'') (Some ''B'') 40 3)\<lparr>signature := Some ''forged''\<rparr>"
          demo_sha256 demo_verify demo_chain1]
      forged
    by (simp add: Transaction_def)
  have c4: "addTransaction demo_sha256 demo_verify demo_chain1 (demo_signed 0 3)
     = (Inl AmountNotPositive, demo_chain1)"
    using addTransaction_checks [of "demo_signed 0 3" demo_sha256 demo_verify demo_chain1]
    by (simp add: demo_signed_valid)
  have c5: "addTransaction demo_sha256 demo_verify demo_chain1 (demo_signed 999 3)
     = (Inl NotEnoughBalance, demo_chain1)"
    using addTransaction_checks [of "demo_signed 999 3" demo_sha256 demo_verify demo_chain1]
    by (simp add: demo_signed_valid demo_balance1)
  have c6: "addTransaction demo_sha256 demo_verify demo_chain1 (demo_signed 40 3)
     = (Inr (), demo_chain1\<lparr>pendingTransactions := pendingTransactions demo_chain1 @ [demo_signed 40 3]\<rparr>)"
    using addTransaction_checks [of "demo_signed 40 3" demo_sha256 demo_verify demo_chain1]
    by (simp add: demo_signed_valid demo_balance1)
  from c1 c2 c3 c4 c5 c6 show ?thesis
    by blast
qed

section \<open>Balances\<close>

subsection \<open>What a returned call of \<^verbatim>\<open>minePendingTransactions\<close> has done\<close>

lemma mineBlock_keeps:
  assumes "mineBlock sha256 d b = Some b'"
  shows "transactions b' = transactions b \<and> previousHash b' = previousHash b
         \<and> block.timestamp b' = block.timestamp b"
  using mineBlock_returns [OF assms] by auto

lemma minePendingTransactions_Inr:
  assumes "minePendingTransactions sha256 bc miner now1 now2 = Some (Inr (), bc')"
  shows "\<exists>mined. chain bc \<noteq> []
           \<and> bc' = bc\<lparr>chain := chain bc @ [mined], pendingTransactions := []\<rparr>
           \<and> transactions mined
               = Txs (pendingTransactions bc @ [Transaction None miner (miningReward bc) now1])"
proof (cases "chain bc = []")
  case True
  with assms show ?thesis
    by (simp add: minePendingTransactions_def getLatestBlock_def Let_def)
next
  case False
  let ?b = "Block sha256 (StampNumber now2)
              (Txs (pendingTransactions bc @ [Transaction None miner (miningReward bc) now1]))
              (hash (last (chain bc)))"
  from assms False obtain mined where m: "mineBlock sha256 (difficulty bc) ?b = Some mined"
    and bc': "bc' = bc\<lparr>chain := chain bc @ [mined], pendingTransactions := []\<rparr>"
    by (auto simp: minePendingTransactions_def getLatestBlock_def Let_def split: option.splits)
  from mineBlock_keeps [OF m] have "transactions mined = transactions ?b" by simp
  then have "transactions mined
      = Txs (pendingTransactions bc @ [Transaction None miner (miningReward bc) now1])"
    by (simp add: Block_def Let_def)
  with False bc' show ?thesis by (intro exI [of _ mined]) simp
qed

lemma minePendingTransactions_Inl:
  assumes "minePendingTransactions sha256 bc miner now1 now2 = Some (Inl e, bc')"
  shows "chain bc = []"
  using assms
  by (auto simp: minePendingTransactions_def getLatestBlock_def Let_def split: option.splits if_splits)

subsection \<open>The replay\<close>





section \<open>The reward transaction of every mined block\<close>

lemma addTransaction_outcome:
  assumes "addTransaction sha256 verify bc tx = (r, bc')"
  shows "bc' = bc
         \<or> (\<not> falsy (fromAddress tx)
            \<and> bc' = bc\<lparr>pendingTransactions := pendingTransactions bc @ [tx]\<rparr>)"
  using assms by (auto simp: addTransaction_def split: if_splits sum.splits)

lemma not_falsy_not_None: "\<not> falsy a \<Longrightarrow> a \<noteq> None"
  by (cases a) simp_all

lemma ends_with_reward_appended:
  assumes "transactions b = Txs (pool @ [Transaction None miner reward now])"
    and "list_all (\<lambda>tx. \<not> falsy (fromAddress tx)) pool"
  shows "ends_with_reward b miner reward"
proof -
  have "list_all (\<lambda>tx. fromAddress tx \<noteq> None) pool"
    using assms(2) by (induction pool) (auto dest: not_falsy_not_None)
  then show ?thesis
    using assms(1) by (simp add: ends_with_reward_def Transaction_def)
qed

lemma reachable_invariant:
  assumes "reachable sha256 verify bc miners"
  shows "chain bc \<noteq> [] \<and> miningReward bc = 100 \<and> difficulty bc = 2
         \<and> list_all (\<lambda>tx. \<not> falsy (fromAddress tx)) (pendingTransactions bc)
         \<and> length (chain bc) = Suc (length miners)
         \<and> (\<forall>i<length miners. ends_with_reward (chain bc ! Suc i) (miners ! i) 100)"
  using assms
proof (induction rule: reachable.induct)
  case constructed
  show ?case by (simp add: Blockchain_def)
next
  case (added bc miners tx r bc')
  from addTransaction_outcome [OF added.hyps(2)] added.IH show ?case
    by auto
next
  case (mined bc miners miner now1 now2 bc')
  from minePendingTransactions_Inr [OF mined.hyps(2)]
  obtain blk where bc': "bc' = bc\<lparr>chain := chain bc @ [blk], pendingTransactions := []\<rparr>"
    and txs: "transactions blk
               = Txs (pendingTransactions bc @ [Transaction None miner (miningReward bc) now1])"
    by blast
  have len: "length (chain bc) = Suc (length miners)"
    using mined.IH by simp
  have new: "ends_with_reward blk miner 100"
    using ends_with_reward_appended [OF txs] mined.IH by simp
  have "ends_with_reward (chain bc' ! Suc i) ((miners @ [miner]) ! i) 100"
    if "i < length (miners @ [miner])" for i
  proof (cases "i < length miners")
    case True
    then show ?thesis
      using mined.IH len by (simp add: bc' nth_append)
  next
    case False
    with that have "i = length miners" by simp
    then show ?thesis
      using new len by (simp add: bc' nth_append)
  qed
  then show ?case
    using mined.IH len by (simp add: bc')
next
  case (mining_failed bc miners miner now1 now2 e bc')
  from minePendingTransactions_Inl [OF mining_failed.hyps(2)] mining_failed.IH show ?case
    by simp
qed

text \<open>
  C10. In every state reached through the constructor, \<^verbatim>\<open>addTransaction\<close> and
  \<^verbatim>\<open>minePendingTransactions\<close>, the chain holds the genesis block and one block per
  mining call; the block of the \<open>i\<close>-th mining call ends with a reward transaction
  (\<^verbatim>\<open>fromAddress\<close> \<^verbatim>\<open>null\<close>, \<^verbatim>\<open>toAddress\<close> the miner address passed to that call, \<^verbatim>\<open>amount\<close>
  the mining reward), and no other transaction of the block has a \<^verbatim>\<open>null\<close> sender:
  every transaction of the pool has a sender, since \<^verbatim>\<open>addTransaction\<close> rejects a
  transaction without one.
\<close>

theorem reward_closes_every_block:
  "reachable sha256 verify bc miners
   \<Longrightarrow> length (chain bc) = Suc (length miners)
       \<and> (\<forall>i<length miners.
             ends_with_reward (chain bc ! Suc i) (miners ! i) (miningReward bc))
       \<and> list_all (\<lambda>tx. \<not> falsy (fromAddress tx)) (pendingTransactions bc)
       \<and> (\<forall>tx. falsy (fromAddress tx)
             \<longrightarrow> addTransaction sha256 verify bc tx = (Inl MissingAddress, bc))"
  using reachable_invariant [of sha256 verify bc miners]
  by (simp add: addTransaction_def)

theorem reward_closes_every_block_witness:
  "reachable demo_sha256 demo_verify demo_chain2 [Some ''A'', Some ''A'']
   \<and> length (chain demo_chain2) = 3
   \<and> ends_with_reward (chain demo_chain2 ! 1) (Some ''A'') 100
   \<and> ends_with_reward (chain demo_chain2 ! 2) (Some ''A'') 100
   \<and> addTransaction demo_sha256 demo_verify demo_chain2 (Transaction None (Some ''B'') 5 7)
       = (Inl MissingAddress, demo_chain2)"
proof -
  from reward_closes_every_block [OF demo_reachable2]
  have len: "length (chain demo_chain2) = Suc (length [Some ''A'', Some ''A''])"
    and all: "\<forall>i<length [Some ''A'', Some ''A''].
        ends_with_reward (chain demo_chain2 ! Suc i) ([Some ''A'', Some ''A''] ! i)
          (miningReward demo_chain2)"
    and rej: "\<forall>tx. falsy (fromAddress tx)
        \<longrightarrow> addTransaction demo_sha256 demo_verify demo_chain2 tx = (Inl MissingAddress, demo_chain2)"
    by blast+
  have r: "miningReward demo_chain2 = 100"
    by (simp add: demo_chain2_def)
  from all [rule_format, of 0] have b1: "ends_with_reward (chain demo_chain2 ! 1) (Some ''A'') 100"
    by (simp add: r)
  from all [rule_format, of 1] have b2: "ends_with_reward (chain demo_chain2 ! 2) (Some ''A'') 100"
    by (simp add: r numeral_2_eq_2)
  from rej [rule_format, of "Transaction None (Some ''B'') 5 7"]
  have b3: "addTransaction demo_sha256 demo_verify demo_chain2 (Transaction None (Some ''B'') 5 7)
       = (Inl MissingAddress, demo_chain2)"
    by (simp add: Transaction_def)
  from demo_reachable2 len b1 b2 b3 show ?thesis
    by simp
qed

section \<open>The balance check and the pending pool\<close>

lemma getBalanceOfAddress_pool [simp]:
  "getBalanceOfAddress (bc\<lparr>pendingTransactions := pool\<rparr>) address = getBalanceOfAddress bc address"
  by (simp add: getBalanceOfAddress_def)

lemma demo_reachable1: "reachable demo_sha256 demo_verify demo_chain1 [Some ''A'']"
  using reachable.mined [OF reachable.constructed demo_first_mine] by simp

lemma demo_overdraw_mine:
  "minePendingTransactions demo_sha256
     (demo_chain1\<lparr>pendingTransactions := [demo_signed 60 3, demo_signed 60 4]\<rparr>) (Some ''M'') 5 8
   = Some (Inr (),
       demo_chain1
         \<lparr>chain := chain demo_chain1
            @ [Block demo_sha256 (StampNumber 8)
                 (Txs [demo_signed 60 3, demo_signed 60 4, Transaction None (Some ''M'') 100 5])
                 demo_hash00],
          pendingTransactions := []\<rparr>)"
  apply (subst minePendingTransactions_mined
      [where mined = "Block demo_sha256 (StampNumber 8)
                 (Txs [demo_signed 60 3, demo_signed 60 4, Transaction None (Some ''M'') 100 5])
                 demo_hash00"])
    apply (simp add: demo_chain1_def)
   apply (subst mineBlock_unfold)
   apply (simp add: demo_states demo_eval meetsDifficulty_def)
  apply (simp add: demo_chain1_def)
  done

text \<open>
  C9. The balance that \<^verbatim>\<open>addTransaction\<close> checks is computed from the chain alone; the
  pool does not enter it. So two validly signed transactions of one sender, each with
  an amount within the sender's balance, are both accepted by consecutive calls,
  whatever the sum of their amounts. The instance below is a reachable state with a
  balance of 100 and two transfers of 60, which leave the sender at -20 once mined.
\<close>

theorem addTransaction_ignores_pool:
  assumes "fromAddress tx1 = Some sender" and "fromAddress tx2 = Some sender"
    and "sender \<noteq> []" and "\<not> falsy (toAddress tx1)" and "\<not> falsy (toAddress tx2)"
    and "isValid sha256 verify tx1 = Inr True" and "isValid sha256 verify tx2 = Inr True"
    and "0 < amount tx1" and "0 < amount tx2"
    and "amount tx1 \<le> getBalanceOfAddress bc (Some sender)"
    and "amount tx2 \<le> getBalanceOfAddress bc (Some sender)"
  shows "addTransaction sha256 verify bc tx1
           = (Inr (), bc\<lparr>pendingTransactions := pendingTransactions bc @ [tx1]\<rparr>)
         \<and> addTransaction sha256 verify
               (bc\<lparr>pendingTransactions := pendingTransactions bc @ [tx1]\<rparr>) tx2
           = (Inr (), bc\<lparr>pendingTransactions := pendingTransactions bc @ [tx1, tx2]\<rparr>)
         \<and> (\<forall>pool. getBalanceOfAddress (bc\<lparr>pendingTransactions := pool\<rparr>) (Some sender)
                     = getBalanceOfAddress bc (Some sender))"
  using assms by (simp add: addTransaction_def)

theorem addTransaction_ignores_pool_witness:
  "reachable demo_sha256 demo_verify demo_chain1 [Some ''A'']
   \<and> getBalanceOfAddress demo_chain1 (Some ''A'') = 100
   \<and> amount (demo_signed 60 3) \<le> 100 \<and> amount (demo_signed 60 4) \<le> 100
   \<and> amount (demo_signed 60 3) + amount (demo_signed 60 4) > 100
   \<and> addTransaction demo_sha256 demo_verify demo_chain1 (demo_signed 60 3)
       = (Inr (), demo_chain1\<lparr>pendingTransactions := [demo_signed 60 3]\<rparr>)
   \<and> addTransaction demo_sha256 demo_verify
         (demo_chain1\<lparr>pendingTransactions := [demo_signed 60 3]\<rparr>) (demo_signed 60 4)
       = (Inr (), demo_chain1\<lparr>pendingTransactions := [demo_signed 60 3, demo_signed 60 4]\<rparr>)
   \<and> (\<exists>bc'. minePendingTransactions demo_sha256
           (demo_chain1\<lparr>pendingTransactions := [demo_signed 60 3, demo_signed 60 4]\<rparr>)
           (Some ''M'') 5 8 = Some (Inr (), bc')
         \<and> getBalanceOfAddress bc' (Some ''A'') = - 20)"
proof -
  have pool: "pendingTransactions demo_chain1 = []"
    by (simp add: demo_chain1_def)
  have h: "fromAddress (demo_signed 60 3) = Some ''A''" "fromAddress (demo_signed 60 4) = Some ''A''"
    "''A'' \<noteq> []" "\<not> falsy (toAddress (demo_signed 60 3))" "\<not> falsy (toAddress (demo_signed 60 4))"
    "0 < amount (demo_signed 60 3)" "0 < amount (demo_signed 60 4)"
    "amount (demo_signed 60 3) \<le> getBalanceOfAddress demo_chain1 (Some ''A'')"
    "amount (demo_signed 60 4) \<le> getBalanceOfAddress demo_chain1 (Some ''A'')"
    by (simp_all add: demo_balance1)
  from addTransaction_ignores_pool
    [OF h(1) h(2) h(3) h(4) h(5) demo_signed_valid demo_signed_valid h(6) h(7) h(8) h(9)]
  have both: "addTransaction demo_sha256 demo_verify demo_chain1 (demo_signed 60 3)
       = (Inr (), demo_chain1\<lparr>pendingTransactions := [demo_signed 60 3]\<rparr>)"
    "addTransaction demo_sha256 demo_verify
         (demo_chain1\<lparr>pendingTransactions := [demo_signed 60 3]\<rparr>) (demo_signed 60 4)
       = (Inr (), demo_chain1\<lparr>pendingTransactions := [demo_signed 60 3, demo_signed 60 4]\<rparr>)"
    by (simp_all add: pool)
  have overdrawn: "getBalanceOfAddress
      (demo_chain1
         \<lparr>chain := chain demo_chain1
            @ [Block demo_sha256 (StampNumber 8)
                 (Txs [demo_signed 60 3, demo_signed 60 4, Transaction None (Some ''M'') 100 5])
                 demo_hash00],
          pendingTransactions := []\<rparr>) (Some ''A'') = - 20"
    by (simp add: getBalanceOfAddress_def demo_chain1_def demo_block1_def createGenesisBlock_def
        Transaction_def)
  from demo_reachable1 demo_balance1 both demo_overdraw_mine overdrawn show ?thesis
    by simp
qed

section \<open>Detecting an overwritten amount\<close>

subsection \<open>Printing a number loses nothing\<close>








lemma show_nat_nonempty: "show_nat n \<noteq> []"
  by (subst show_nat.simps) simp






subsection \<open>The serialised transactions determine the amounts\<close>




lemma json_transaction_nonempty: "json_transaction tx \<noteq> []"
  by (simp add: json_transaction_def)



subsection \<open>Validation of a chain whose amounts were changed\<close>






subsection \<open>The scenario is valid\<close>

lemma demo_genesis_hash: "hash (createGenesisBlock demo_sha256) = demo_hash00"
  by (simp add: demo_states demo_eval)

lemma demo_block1_hash: "calculateHash demo_sha256 demo_block1 = demo_hash00"
  by (simp add: demo_states demo_eval)

lemma demo_block2_hash: "calculateHash demo_sha256 demo_block2 = demo_hash00"
  by (simp add: demo_states demo_eval)

lemma demo_block_fields [simp]:
  "hash demo_block1 = demo_hash00" "previousHash demo_block1 = demo_hash00"
  "hash demo_block2 = demo_hash00" "previousHash demo_block2 = demo_hash00"
  "transactions demo_block1 = Txs [Transaction None (Some ''A'') 100 1]"
  "transactions demo_block2 = Txs [demo_signed 40 3, Transaction None (Some ''A'') 100 4]"
  by (simp_all add: demo_block1_def demo_block2_def)

lemma isValid_reward [simp]: "isValid sha256 verify (Transaction None to amt now) = Inr True"
  by (simp add: isValid_def Transaction_def)

lemma demo_chain2_valid: "isChainValid demo_sha256 demo_verify demo_chain2 = Inr True"
  by (simp add: isChainValid_def demo_chain2_def demo_genesis_hash demo_block1_hash
      demo_block2_hash demo_signed_valid)


subsection \<open>Detection\<close>



section \<open>Validating the chain\<close>

subsection \<open>When \<^verbatim>\<open>isChainValid\<close> returns true\<close>

lemma validBlocks_true_iff:
  "validBlocks sha256 verify previous bs = Inr True
   \<longleftrightarrow> (\<forall>i<length bs.
          previousHash (bs ! i) = hash ((previous # bs) ! i)
          \<and> hasValidTransactions sha256 verify (bs ! i) = Inr True
          \<and> hash (bs ! i) = calculateHash sha256 (bs ! i))"
proof (induction bs arbitrary: previous)
  case Nil
  show ?case by simp
next
  case (Cons b bs)
  have "validBlocks sha256 verify previous (b # bs) = Inr True
        \<longleftrightarrow> previousHash b = hash previous
            \<and> hasValidTransactions sha256 verify b = Inr True
            \<and> hash b = calculateHash sha256 b
            \<and> validBlocks sha256 verify b bs = Inr True"
    by (auto split: sum.splits)
  also have "\<dots> \<longleftrightarrow> (\<forall>i<length (b # bs).
          previousHash ((b # bs) ! i) = hash ((previous # b # bs) ! i)
          \<and> hasValidTransactions sha256 verify ((b # bs) ! i) = Inr True
          \<and> hash ((b # bs) ! i) = calculateHash sha256 ((b # bs) ! i))"
    by (simp add: Cons.IH All_less_Suc2)
  finally show ?case .
qed

lemma isChainValid_true_iff:
  "isChainValid sha256 verify bc = Inr True
   \<longleftrightarrow> chain bc \<noteq> []
       \<and> json_block (chain bc ! 0) = json_block (createGenesisBlock sha256)
       \<and> (\<forall>i. 1 \<le> i \<and> i < length (chain bc)
              \<longrightarrow> previousHash (chain bc ! i) = hash (chain bc ! (i - 1))
                  \<and> hasValidTransactions sha256 verify (chain bc ! i) = Inr True
                  \<and> hash (chain bc ! i) = calculateHash sha256 (chain bc ! i))"
proof (cases "chain bc")
  case Nil
  then show ?thesis by (simp add: isChainValid_def)
next
  case (Cons first rest)
  have shift: "(\<forall>i. 1 \<le> i \<and> i < length (first # rest) \<longrightarrow> P i)
      \<longleftrightarrow> (\<forall>k<length rest. P (Suc k))" for P
  proof
    assume "\<forall>i. 1 \<le> i \<and> i < length (first # rest) \<longrightarrow> P i"
    then show "\<forall>k<length rest. P (Suc k)" by simp
  next
    assume all: "\<forall>k<length rest. P (Suc k)"
    show "\<forall>i. 1 \<le> i \<and> i < length (first # rest) \<longrightarrow> P i"
    proof (intro allI impI)
      fix i assume "1 \<le> i \<and> i < length (first # rest)"
      then obtain k where "i = Suc k" "k < length rest" by (cases i) auto
      with all show "P i" by simp
    qed
  qed
  show ?thesis
    unfolding Cons shift
    by (auto simp: isChainValid_def Cons validBlocks_true_iff)
qed

lemma validBlocks_error:
  "validBlocks sha256 verify previous bs = Inl e
   \<Longrightarrow> \<exists>b \<in> set bs. hasValidTransactions sha256 verify b = Inl e"
  by (induction bs arbitrary: previous) (auto split: sum.splits if_splits)

subsection \<open>An unsigned transaction makes \<^verbatim>\<open>isChainValid\<close> throw\<close>

text \<open>
  C1 says that \<^verbatim>\<open>isChainValid()\<close> returns false at the first block that fails a check
  and never raises an error. The characterisation of the result true holds
  (\<open>isChainValid_true_iff\<close>), but \<^verbatim>\<open>hasValidTransactions\<close> does not catch what
  \<^verbatim>\<open>isValid\<close> throws: on the valid chain of the scenario, once the signature of the
  mined transfer is deleted, \<^verbatim>\<open>isChainValid()\<close> throws "No signature in this
  transaction" where its documentation promises false.
\<close>

theorem isChainValid_raises:
  "isChainValid demo_sha256 demo_verify demo_chain2 = Inr True
   \<and> isChainValid demo_sha256 demo_verify (demo_chain2\<lparr>chain := demo_unsigned\<rparr>)
       = Inl NoSignature"
proof -
  have "isValid demo_sha256 demo_verify ((demo_signed 40 3)\<lparr>signature := None\<rparr>) = Inl NoSignature"
    by (simp add: isValid_def)
  then have "isChainValid demo_sha256 demo_verify (demo_chain2\<lparr>chain := demo_unsigned\<rparr>)
       = Inl NoSignature"
    by (simp add: isChainValid_def demo_unsigned_def demo_genesis_hash demo_block1_hash)
  with demo_chain2_valid show ?thesis by simp
qed

end
